theory Spec2Isabelle
  imports Main
begin

section \<open>Data model\<close>

text \<open>
  Exceptions of the Python source are values: a computation returns
  \<open>py_error + 'a\<close>, with \<open>Inl\<close> for the exception that reaches the caller.
\<close>

datatype py_error =
  ValueError | TypeError | AssertionError | IndexError | UnboundLocalError

definition bindE :: "'e + 'a \<Rightarrow> ('a \<Rightarrow> 'e + 'b) \<Rightarrow> 'e + 'b" where
  "bindE m f = (case m of Inl e \<Rightarrow> Inl e | Inr x \<Rightarrow> f x)"

text \<open>The two names accepted for \<open>summary_statistic\<close>; \<open>None\<close> is Python's \<open>None\<close>.\<close>

datatype stat = Mean | Median

text \<open>
  A timeseries tensor is a numpy array of shape \<open>(n_TRs, n_regions, n_subjects)\<close>:
  the shape is kept beside the cells, because an array with an empty axis still has
  a shape. \<open>cells d ! t ! v ! s\<close> is the sample of subject \<open>s\<close> in region \<open>v\<close> at
  time \<open>t\<close>. The embedding follows the source for tensors with at least one subject.
\<close>

record 'a tensor =
  nTR :: nat
  nvox :: nat
  nsub :: nat
  cells :: "'a list list list"

definition wf_tensor :: "'a tensor \<Rightarrow> bool" where
  "wf_tensor d =
     (length (cells d) = nTR d \<and>
      list_all (\<lambda>row. length row = nvox d \<and> list_all (\<lambda>c. length c = nsub d) row)
        (cells d))"

text \<open>Arrays returned to the caller: one, two or three axes.\<close>

datatype 'a ndarray = Vec "'a list" | Mat "'a list list" | Cube "'a list list list"

text \<open>
  Floating-point arithmetic is not modelled. The scalar numerics the program takes
  from numpy and from its helper module are parameters, over an arbitrary type of
  cell values:
  \<^item> \<open>nan\<close>: the value \<open>np.nan\<close>;
  \<^item> \<open>pearson x y\<close>: the Pearson correlation of two timeseries, as the helper
    \<open>array_correlation\<close> computes it for one column;
  \<^item> \<open>corr x y\<close>: one entry of \<open>np.corrcoef\<close>, for the rows \<open>x\<close> and \<open>y\<close>;
  \<^item> \<open>mean\<close>, \<open>nanmean\<close>: \<open>np.mean\<close> and \<open>np.nanmean\<close> of the values along one axis;
  \<^item> \<open>fsub\<close>: subtraction of two cells;
  \<^item> \<open>region_ok tol slab\<close>: whether the NaN threshold keeps a region, given the
    region's samples (time by subject);
  \<^item> \<open>summary st xs\<close>: the Fisher-Z based mean or median of one column.
\<close>

record 'a numerics =
  nan :: 'a
  pearson :: "'a list \<Rightarrow> 'a list \<Rightarrow> 'a"
  corr :: "'a list \<Rightarrow> 'a list \<Rightarrow> 'a"
  mean :: "'a list \<Rightarrow> 'a"
  nanmean :: "'a list \<Rightarrow> 'a"
  fsub :: "'a \<Rightarrow> 'a \<Rightarrow> 'a"
  region_ok :: "bool \<Rightarrow> 'a list list \<Rightarrow> bool"
  summary :: "stat \<Rightarrow> 'a list \<Rightarrow> 'a"

section \<open>Helpers of \<open>utils.bnk_funcs\<close>\<close>

text \<open>
  Modelled from the spec: \<open>_check_timeseries_input\<close>, whose file is not among the
  sources. It validates the tensor's shape (a malformed shape is a fatal
  input-validation error) and returns the tensor with its three extents.
\<close>

definition check_timeseries_input ::
  "'a tensor \<Rightarrow> py_error + ('a tensor \<times> nat \<times> nat \<times> nat)" where
  "check_timeseries_input d =
     (if wf_tensor d then Inr (d, nTR d, nvox d, nsub d) else Inl ValueError)"

text \<open>The samples of region \<open>v\<close>: one row per time point, one entry per subject.\<close>

definition region_slab :: "'a tensor \<Rightarrow> nat \<Rightarrow> 'a list list" where
  "region_slab d v = map (\<lambda>row. row ! v) (cells d)"

text \<open>\<open>data[:, mask, :]\<close>: the regions the mask keeps, in their order.\<close>

definition compact :: "bool list \<Rightarrow> 'a list \<Rightarrow> 'a list" where
  "compact msk xs = map fst (filter snd (zip xs msk))"

definition select_regions :: "'a tensor \<Rightarrow> bool list \<Rightarrow> 'a tensor" where
  "select_regions d msk =
     d\<lparr>nvox := length (filter id msk), cells := map (compact msk) (cells d)\<rparr>"

text \<open>
  Modelled from the spec: \<open>_threshold_nans\<close>, whose file is not among the sources.
  It decides per region whether the region is kept (the policy is the parameter
  \<open>region_ok\<close>) and returns the filtered tensor, regions compacted with their order
  preserved, and the boolean mask over the regions.
\<close>

definition threshold_nans ::
  "'a numerics \<Rightarrow> 'a tensor \<Rightarrow> bool \<Rightarrow> 'a tensor \<times> bool list" where
  "threshold_nans N d tolerate_nans =
     (let msk = map (\<lambda>v. region_ok N tolerate_nans (region_slab d v)) [0..<nvox d]
      in (select_regions d msk, msk))"

text \<open>Column \<open>v\<close> of a matrix given by its rows.\<close>

definition column :: "'a list list \<Rightarrow> nat \<Rightarrow> 'a list" where
  "column x v = map (\<lambda>r. r ! v) x"

text \<open>
  Modelled from the spec: \<open>array_correlation\<close>, whose file is not among the sources:
  the column-wise Pearson correlation of two equal-shaped matrices (time by column),
  one scalar per column. \<open>k\<close> is the number of columns of the two matrices.
\<close>

definition array_correlation ::
  "'a numerics \<Rightarrow> nat \<Rightarrow> 'a list list \<Rightarrow> 'a list list \<Rightarrow> 'a list" where
  "array_correlation N k x y = map (\<lambda>v. pearson N (column x v) (column y v)) [0..<k]"

text \<open>
  Modelled from the spec: \<open>compute_summary_statistic\<close> with \<open>axis=0\<close>, whose file is
  not among the sources: the summary of each region's column across all observation
  rows, one value per region.
\<close>

definition compute_summary_statistic ::
  "'a numerics \<Rightarrow> stat \<Rightarrow> nat \<Rightarrow> 'a list list \<Rightarrow> 'a list" where
  "compute_summary_statistic N st n_voxels iscs =
     map (\<lambda>v. summary N st (column iscs v)) [0..<n_voxels]"

section \<open>Library operations\<close>

text \<open>
  joblib's \<open>Parallel(n_jobs)(delayed(f)(x) for x in xs)\<close>: the results of the tasks
  in the order the tasks were submitted, whatever the order they finish in.
  joblib rejects \<open>n_jobs = 0\<close> with a \<open>ValueError\<close>.
\<close>

definition Parallel :: "int option \<Rightarrow> ('b \<Rightarrow> 'c) \<Rightarrow> 'b list \<Rightarrow> py_error + 'c list" where
  "Parallel n_jobs f xs = (if n_jobs = Some 0 then Inl ValueError else Inr (map f xs))"

text \<open>\<open>np.corrcoef(x)\<close>: the correlation of every row of \<open>x\<close> with every row.\<close>

definition corrcoef :: "'a numerics \<Rightarrow> 'a list list \<Rightarrow> 'a list list" where
  "corrcoef N x = map (\<lambda>ri. map (\<lambda>rj. corr N ri rj) x) x"

text \<open>
  scipy's \<open>squareform(m, checks=False)\<close> on a square matrix: for each row but the
  last, the entries right of the diagonal, row after row.
\<close>

definition squareform :: "'a list list \<Rightarrow> 'a list" where
  "squareform m = concat (map (\<lambda>i. drop (Suc i) (m ! i)) [0..<length m - 1])"

text \<open>
  \<open>np.column_stack\<close> of a list of vectors: the vectors become the columns of a
  matrix. An empty list, or vectors of different lengths, raise \<open>ValueError\<close>.
\<close>

definition column_stack :: "'a list list \<Rightarrow> py_error + 'a list list" where
  "column_stack tup =
     (case tup of
        [] \<Rightarrow> Inl ValueError
      | a # _ \<Rightarrow>
          if list_all (\<lambda>b. length b = length a) tup
          then Inr (map (\<lambda>p. map (\<lambda>b. b ! p) tup) [0..<length a])
          else Inl ValueError)"

text \<open>
  \<open>iscs = np.full((rows, n_voxels), np.nan); iscs[:, np.where(mask)[0]] = stack\<close>:
  each row of the stack is written to the columns the mask keeps, the others stay
  NaN. numpy raises \<open>ValueError\<close> when a row does not have one value per kept column.
\<close>

fun scatter_row :: "'a \<Rightarrow> bool list \<Rightarrow> 'a list \<Rightarrow> 'a list" where
  "scatter_row nv [] ys = []"
| "scatter_row nv (False # m) ys = nv # scatter_row nv m ys"
| "scatter_row nv (True # m) (y # ys) = y # scatter_row nv m ys"
| "scatter_row nv (True # m) [] = nv # scatter_row nv m []"

definition scatter :: "'a \<Rightarrow> bool list \<Rightarrow> 'a list list \<Rightarrow> py_error + 'a list list" where
  "scatter nv msk stack =
     (if list_all (\<lambda>r. length r = length (filter id msk)) stack
      then Inr (map (scatter_row nv msk) stack)
      else Inl ValueError)"

section \<open>\<open>isc\<close>\<close>

text \<open>\<open>data[..., s]\<close>: the matrix (time by region) of subject \<open>s\<close>.\<close>

definition subject :: "'a tensor \<Rightarrow> nat \<Rightarrow> 'a list list" where
  "subject d s = map (map (\<lambda>c. c ! s)) (cells d)"

text \<open>\<open>np.delete(c, s)\<close> on the subject axis.\<close>

definition delete_at :: "nat \<Rightarrow> 'a list \<Rightarrow> 'a list" where
  "delete_at s c = take s c @ drop (Suc s) c"

text \<open>
  \<open>loo_corr = lambda x, s: array_correlation(x[...,s], mean(np.delete(x, s, axis=2), axis=2))\<close>
\<close>

definition loo_corr :: "'a numerics \<Rightarrow> ('a list \<Rightarrow> 'a) \<Rightarrow> 'a tensor \<Rightarrow> nat \<Rightarrow> 'a list" where
  "loo_corr N meanf x s =
     array_correlation N (nvox x) (subject x s)
       (map (map (\<lambda>c. meanf (delete_at s c))) (cells x))"

text \<open>
  \<open>series d v s\<close> is the timeseries of subject \<open>s\<close> in region \<open>v\<close>. After
  \<open>np.swapaxes(data, 2, 0)\<close>, \<open>data[:, v, :]\<close> is the matrix of region \<open>v\<close> with one
  row per subject, the row being the subject's timeseries.
\<close>

definition series :: "'a tensor \<Rightarrow> nat \<Rightarrow> nat \<Rightarrow> 'a list" where
  "series d v s = map (\<lambda>row. row ! v ! s) (cells d)"

definition voxel_data :: "'a tensor \<Rightarrow> nat \<Rightarrow> 'a list list" where
  "voxel_data d v = map (\<lambda>s. series d v s) [0..<nsub d]"

text \<open>\<open>pairwise_corr = lambda x: squareform(np.corrcoef(x), checks=False)\<close>\<close>

definition pairwise_corr :: "'a numerics \<Rightarrow> 'a list list \<Rightarrow> 'a list" where
  "pairwise_corr N x = squareform (corrcoef N x)"

text \<open>
  The pairwise branch of \<open>isc\<close> (lines 94 to 112). The source dispatches to
  \<open>Parallel\<close> when \<open>n_jobs in (1, None)\<close> and runs the plain loop otherwise.
  With a single subject \<open>np.corrcoef\<close> returns a scalar instead of a matrix, and
  what \<open>squareform\<close> makes of it does not fit the output array: the branch ends in
  a \<open>ValueError\<close>.
\<close>

definition pairwise_stack ::
  "'a numerics \<Rightarrow> 'a tensor \<Rightarrow> int option \<Rightarrow> py_error + 'a list list" where
  "pairwise_stack N d n_jobs =
     (if nsub d = 1 then Inl ValueError
      else bindE
        (if n_jobs = Some 1 \<or> n_jobs = None
         then Parallel n_jobs (\<lambda>v. pairwise_corr N (voxel_data d v)) [0..<nvox d]
         else Inr (map (\<lambda>v. squareform (corrcoef N (voxel_data d v))) [0..<nvox d]))
        column_stack)"

text \<open>
  The leave-one-out branch of \<open>isc\<close> (lines 116 to 126). The source dispatches to
  \<open>Parallel\<close> when \<open>n_jobs not in (1, None)\<close> and builds the list itself otherwise.
\<close>

definition loo_stack ::
  "'a numerics \<Rightarrow> ('a list \<Rightarrow> 'a) \<Rightarrow> 'a tensor \<Rightarrow> nat \<Rightarrow> int option \<Rightarrow> py_error + 'a list list" where
  "loo_stack N meanf d n_subjects n_jobs =
     (if \<not> (n_jobs = Some 1 \<or> n_jobs = None)
      then Parallel n_jobs (\<lambda>s. loo_corr N meanf d s) [0..<n_subjects]
      else Inr (map (\<lambda>s. loo_corr N meanf d s) [0..<n_subjects]))"

definition two_subjects_notice :: string where
  "two_subjects_notice = ''Only two subjects! Simply computing Pearson correlation.''"

text \<open>
  \<open>isc(data, pairwise, summary_statistic, tolerate_nans, n_jobs)\<close>. The first
  component of the result is what \<open>isc\<close> itself writes to the logger, the second is
  the array returned or the exception raised.
\<close>

definition isc ::
  "'a numerics \<Rightarrow> 'a tensor \<Rightarrow> bool \<Rightarrow> stat option \<Rightarrow> bool \<Rightarrow> int option
     \<Rightarrow> string list \<times> (py_error + 'a ndarray)" where
  "isc N data0 pw summary_statistic0 tolerate_nans n_jobs =
     (case check_timeseries_input data0 of
        Inl e \<Rightarrow> ([], Inl e)
      | Inr (data1, n_TRs, n_voxels, n_subjects) \<Rightarrow>
          (let logged = (if n_subjects = 2 then [two_subjects_notice] else []);
               summary_statistic = (if n_subjects = 2 then None else summary_statistic0);
               meanf = (if tolerate_nans then nanmean N else mean N);
               (data, msk) = threshold_nans N data1 tolerate_nans;
               stack =
                 (if n_subjects = 2
                  then Inr [array_correlation N (nvox data) (subject data 0) (subject data 1)]
                  else if pw then pairwise_stack N data n_jobs
                  else loo_stack N meanf data n_subjects n_jobs)
           in (logged,
               bindE stack (\<lambda>iscs_stack.
               bindE (scatter (nan N) msk iscs_stack) (\<lambda>iscs1.
                 (let iscs =
                        (case summary_statistic of
                           Some st \<Rightarrow> [compute_summary_statistic N st n_voxels iscs1]
                         | None \<Rightarrow> iscs1)
                  in Inr (if length iscs = 1 then Vec (iscs ! 0) else Mat iscs)))))))"

section \<open>\<open>wmb_isc\<close>\<close>

text \<open>\<open>np.append(d1, d2, axis=-1)\<close>: the two groups side by side on the subject axis;
  numpy raises \<open>ValueError\<close> when the time or region extents differ.\<close>

definition append_subjects :: "'a tensor \<Rightarrow> 'a tensor \<Rightarrow> py_error + 'a tensor" where
  "append_subjects a b =
     (if nTR a = nTR b \<and> nvox a = nvox b
      then Inr \<lparr> nTR = nTR a, nvox = nvox a, nsub = nsub a + nsub b,
                 cells = map2 (map2 (@)) (cells a) (cells b) \<rparr>
      else Inl ValueError)"

text \<open>\<open>d[..., : n]\<close> and \<open>d[..., n :]\<close>.\<close>

definition subjects_upto :: "nat \<Rightarrow> 'a tensor \<Rightarrow> 'a tensor" where
  "subjects_upto n d = d\<lparr>nsub := min n (nsub d), cells := map (map (take n)) (cells d)\<rparr>"

definition subjects_from :: "nat \<Rightarrow> 'a tensor \<Rightarrow> 'a tensor" where
  "subjects_from n d = d\<lparr>nsub := nsub d - n, cells := map (map (drop n)) (cells d)\<rparr>"

text \<open>
  \<open>one2avg_corr = lambda x_i, y: array_correlation(x_i, mean(y, axis=2), axis=2)\<close>.
  The source passes \<open>axis=2\<close> to the correlation primitive; the primitive of the
  spec is column-wise and has no other mode.
\<close>

definition one2avg_corr ::
  "'a numerics \<Rightarrow> ('a list \<Rightarrow> 'a) \<Rightarrow> 'a list list \<Rightarrow> 'a tensor \<Rightarrow> 'a list" where
  "one2avg_corr N meanf x_i y =
     array_correlation N (nvox y) x_i (map (map meanf) (cells y))"

text \<open>
  One round of the loop over the two groups (lines 219 to 235): the within and the
  between scores of every subject of the group \<open>own\<close>, the other group being
  \<open>data_tup[idx-1]\<close>.
\<close>

definition group_iscs ::
  "'a numerics \<Rightarrow> ('a list \<Rightarrow> 'a) \<Rightarrow> int option \<Rightarrow> 'a tensor \<Rightarrow> 'a tensor
     \<Rightarrow> py_error + ('a list list \<times> 'a list list)" where
  "group_iscs N meanf n_jobs own other =
     (let n_subjects = nsub own in
      if \<not> (n_jobs = Some 1 \<or> n_jobs = None)
      then bindE (Parallel n_jobs (\<lambda>s. loo_corr N meanf own s) [0..<n_subjects]) (\<lambda>w.
           bindE (Parallel n_jobs (\<lambda>s. one2avg_corr N meanf (subject own s) other)
                    [0..<n_subjects]) (\<lambda>b.
           Inr (w, b)))
      else Inr (map (\<lambda>s. loo_corr N meanf own s) [0..<n_subjects],
                map (\<lambda>s. one2avg_corr N meanf (subject own s) other) [0..<n_subjects]))"

text \<open>
  \<open>wmb_isc(d1, d2, subtract_wmb, summary_statistic, tolerate_nans, n_jobs)\<close>.
  Lines 245 to 248 read the local variable \<open>iscs\<close>, which the function never
  assigns: with a summary statistic Python raises \<open>UnboundLocalError\<close> there.
\<close>

definition wmb_isc ::
  "'a numerics \<Rightarrow> 'a tensor \<Rightarrow> 'a tensor \<Rightarrow> bool \<Rightarrow> stat option \<Rightarrow> bool \<Rightarrow> int option
     \<Rightarrow> py_error + 'a ndarray" where
  "wmb_isc N d1_0 d2_0 subtract_wmb summary_statistic tolerate_nans n_jobs =
     bindE (check_timeseries_input d1_0) (\<lambda>(d1, d1_n_TRs, d1_n_voxels, d1_n_subs).
     bindE (check_timeseries_input d2_0) (\<lambda>(d2, d2_n_TRs, d2_n_voxels, d2_n_subs).
     (let meanf = (if tolerate_nans then nanmean N else mean N) in
      bindE (append_subjects d1 d2) (\<lambda>d1_and_d2.
      (let (thresholded, msk) = threshold_nans N d1_and_d2 tolerate_nans;
           d1' = subjects_upto d1_n_subs thresholded;
           d2' = subjects_from d1_n_subs thresholded
       in
       bindE (group_iscs N meanf n_jobs d1' d2') (\<lambda>(w1, b1).
       bindE (group_iscs N meanf n_jobs d2' d1') (\<lambda>(w2, b2).
       bindE (scatter (nan N) msk (w1 @ w2)) (\<lambda>within_isc.
       bindE (scatter (nan N) msk (b1 @ b2)) (\<lambda>between_isc.
       bindE (if summary_statistic \<noteq> None then Inl UnboundLocalError else Inr ()) (\<lambda>_.
         if subtract_wmb
         then (let wmb_iscs = map2 (map2 (fsub N)) within_isc between_isc in
               Inr (Mat (case summary_statistic of
                           Some st \<Rightarrow> [compute_summary_statistic N st d1_n_voxels wmb_iscs]
                         | None \<Rightarrow> wmb_iscs)))
         else Inr (Cube [within_isc, between_isc])))))))))))"

section \<open>\<open>isc_by_segment\<close>\<close>

text \<open>
  The first argument is an array for the methods \<open>loo\<close> and \<open>pairwise\<close> and a Python
  list of two group arrays for \<open>wmb\<close>. \<open>OtherMethod\<close> is any other string.
\<close>

datatype 'a seg_data = Array "'a tensor" | GroupList "'a tensor list"

datatype isc_method = Loo | Pairwise | Wmb | OtherMethod

text \<open>Python's \<open>d[start:stop]\<close> on the time axis: negative indices count from the
  end, and both bounds are clipped to the array.\<close>

definition clamp_index :: "nat \<Rightarrow> int \<Rightarrow> nat" where
  "clamp_index n i = (if i < 0 then nat (max 0 (int n + i)) else min n (nat i))"

definition time_slice :: "'a tensor \<Rightarrow> int \<Rightarrow> int \<Rightarrow> 'a tensor" where
  "time_slice d start stop =
     (let lo = clamp_index (nTR d) start; hi = clamp_index (nTR d) stop
      in d\<lparr>nTR := hi - lo, cells := take (hi - lo) (drop lo (cells d))\<rparr>)"

text \<open>
  Lines 274 to 282. Whatever is raised inside the \<open>try\<close> (the failed assertion, the
  division by zero, a list that has no \<open>shape\<close>, an empty list) is caught by the bare
  \<open>except\<close>, whose \<open>raise\<close> of a string is itself a \<open>TypeError\<close>. With method \<open>wmb\<close>
  and an array, \<open>data[0]\<close> is the first time point and its \<open>shape[0]\<close> the number of
  regions.
\<close>

definition checked_n_TRs :: "'a seg_data \<Rightarrow> int \<Rightarrow> isc_method \<Rightarrow> py_error + nat" where
  "checked_n_TRs data seg_trs method =
     (if method \<noteq> Wmb
      then (case data of
              Array d \<Rightarrow>
                if seg_trs \<noteq> 0 \<and> int (nTR d) mod seg_trs = 0 then Inr (nTR d)
                else Inl TypeError
            | GroupList gs \<Rightarrow> Inl TypeError)
      else (case data of
              GroupList [] \<Rightarrow> Inl TypeError
            | GroupList (g # _) \<Rightarrow>
                if seg_trs \<noteq> 0 \<and> int (nTR g) mod seg_trs = 0 then Inr (nTR g)
                else Inl TypeError
            | Array d \<Rightarrow>
                if nTR d = 0 then Inl TypeError
                else if seg_trs \<noteq> 0 \<and> int (nvox d) mod seg_trs = 0 then Inr (nvox d)
                else Inl TypeError))"

text \<open>
  Lines 287 to 298 and the call of lines 303 to 306: the function applied to the
  window \<open>[start, stop)\<close>. For \<open>wmb\<close> the summary statistic is not handed on. With
  another method name \<open>isc_func\<close> is never bound and the call raises. The branches
  for an array with \<open>wmb\<close> and a list without it are never reached: \<open>isc_by_segment\<close>
  has raised before.
\<close>

definition isc_func ::
  "'a numerics \<Rightarrow> 'a seg_data \<Rightarrow> isc_method \<Rightarrow> stat option \<Rightarrow> bool \<Rightarrow> bool \<Rightarrow> int option
     \<Rightarrow> int \<Rightarrow> int \<Rightarrow> string list \<times> (py_error + 'a ndarray)" where
  "isc_func N data method summary_statistic tolerate_nans subtract_wmb n_jobs start stop =
     (case method of
        Loo \<Rightarrow>
          (case data of
             Array d \<Rightarrow> isc N (time_slice d start stop) False summary_statistic tolerate_nans n_jobs
           | GroupList gs \<Rightarrow> ([], Inl TypeError))
      | Pairwise \<Rightarrow>
          (case data of
             Array d \<Rightarrow> isc N (time_slice d start stop) True summary_statistic tolerate_nans n_jobs
           | GroupList gs \<Rightarrow> ([], Inl TypeError))
      | Wmb \<Rightarrow>
          (case data of
             GroupList gs \<Rightarrow>
               if length gs < 2 then ([], Inl IndexError)
               else ([], wmb_isc N (time_slice (gs ! 0) start stop) (time_slice (gs ! 1) start stop)
                           subtract_wmb None tolerate_nans n_jobs)
           | Array d \<Rightarrow> ([], Inl AssertionError))
      | OtherMethod \<Rightarrow> ([], Inl UnboundLocalError))"

text \<open>The \<open>while seg_idx > 0\<close> loop, with what has been logged and the list
  \<open>segment_isc\<close> as its state.\<close>

function seg_loop ::
  "(int \<Rightarrow> int \<Rightarrow> string list \<times> (py_error + 'r)) \<Rightarrow> int \<Rightarrow> int \<Rightarrow> int \<Rightarrow> string list \<Rightarrow> 'r list
     \<Rightarrow> string list \<times> (py_error + 'r list)" where
  "seg_loop call n_segments seg_trs seg_idx logged segment_isc =
     (if seg_idx > 0
      then (let start = (n_segments - seg_idx) * seg_trs;
                stop = ((n_segments - seg_idx) + 1) * seg_trs
            in case call start stop of
                 (l, Inl e) \<Rightarrow> (logged @ l, Inl e)
               | (l, Inr r) \<Rightarrow>
                   seg_loop call n_segments seg_trs (seg_idx - 1) (logged @ l) (segment_isc @ [r]))
      else (logged, Inr segment_isc))"
  by pat_completeness auto
termination
  by (relation "measure (\<lambda>(call, n_segments, seg_trs, seg_idx, logged, segment_isc). nat seg_idx)")
    auto

text \<open>
  \<open>isc_by_segment(data, seg_trs, method, summary_statistic, tolerate_nans,
  subtract_wmb, n_jobs)\<close>. The result list is the leading axis of the returned
  array. \<open>int(n_TRs / seg_trs)\<close> is the exact quotient, the remainder being zero.
\<close>

definition isc_by_segment ::
  "'a numerics \<Rightarrow> 'a seg_data \<Rightarrow> int \<Rightarrow> isc_method \<Rightarrow> stat option \<Rightarrow> bool \<Rightarrow> bool \<Rightarrow> int option
     \<Rightarrow> string list \<times> (py_error + 'a ndarray list)" where
  "isc_by_segment N data seg_trs method summary_statistic tolerate_nans subtract_wmb n_jobs =
     (case checked_n_TRs data seg_trs method of
        Inl e \<Rightarrow> ([], Inl e)
      | Inr n_TRs \<Rightarrow>
          (let n_segments = int n_TRs div seg_trs in
           if method = Wmb \<and> (case data of Array d \<Rightarrow> True | GroupList gs \<Rightarrow> False)
           then ([], Inl AssertionError)
           else seg_loop
                  (isc_func N data method summary_statistic tolerate_nans subtract_wmb n_jobs)
                  n_segments seg_trs n_segments [] []))"

section \<open>Triangle utilities\<close>

text \<open>\<open>np.triu_indices(n, k)\<close> and \<open>np.tril_indices(n, k)\<close>: the positions \<open>(i, j)\<close> of
  an \<open>n\<close> by \<open>n\<close> matrix on or above (below) the \<open>k\<close>-th diagonal, row by row.\<close>

definition triu_indices :: "nat \<Rightarrow> int \<Rightarrow> (nat \<times> nat) list" where
  "triu_indices n k =
     concat (map (\<lambda>i. map (\<lambda>j. (i, j)) (filter (\<lambda>j. k \<le> int j - int i) [0..<n])) [0..<n])"

definition tril_indices :: "nat \<Rightarrow> int \<Rightarrow> (nat \<times> nat) list" where
  "tril_indices n k =
     concat (map (\<lambda>i. map (\<lambda>j. (i, j)) (filter (\<lambda>j. int j - int i \<le> k) [0..<n])) [0..<n])"

text \<open>\<open>mtx[(rows, cols)]\<close>: the entries at the given positions; a position outside
  the matrix raises \<open>IndexError\<close>.\<close>

definition index_pairs :: "'a list list \<Rightarrow> (nat \<times> nat) list \<Rightarrow> py_error + 'a list" where
  "index_pairs mtx ps =
     (if list_all (\<lambda>(i, j). i < length mtx \<and> j < length (mtx ! i)) ps
      then Inr (map (\<lambda>(i, j). mtx ! i ! j) ps)
      else Inl IndexError)"

text \<open>
  \<open>reorder_square_mtx(mtx, sort_idx)\<close>: rows, then columns, permuted by
  \<open>sort_idx.argsort()\<close>. numpy's \<open>argsort\<close> is a parameter.
\<close>

definition reorder_square_mtx ::
  "('k list \<Rightarrow> nat list) \<Rightarrow> 'a list list \<Rightarrow> 'k list \<Rightarrow> py_error + 'a list list" where
  "reorder_square_mtx argsort mtx sort_idx =
     (let inds = argsort sort_idx in
      if list_all (\<lambda>i. i < length mtx) inds
      then (let rows = map (\<lambda>i. mtx ! i) inds in
            if list_all (\<lambda>r. list_all (\<lambda>j. j < length r) inds) rows
            then Inr (map (\<lambda>r. map (\<lambda>j. r ! j) inds) rows)
            else Inl IndexError)
      else Inl IndexError)"

text \<open>\<open>tri2vect(mtx, upper, sort_idx, k)\<close>.\<close>

definition tri2vect ::
  "('k list \<Rightarrow> nat list) \<Rightarrow> 'a list list \<Rightarrow> bool \<Rightarrow> 'k list option \<Rightarrow> int option
     \<Rightarrow> py_error + 'a list" where
  "tri2vect argsort mtx0 upper sort_idx k0 =
     bindE (case sort_idx of
              Some keys \<Rightarrow> reorder_square_mtx argsort mtx0 keys
            | None \<Rightarrow> Inr mtx0) (\<lambda>mtx.
     (let k = (case k0 of None \<Rightarrow> (if upper then 1 else -1) | Some k1 \<Rightarrow> k1);
          trifunc = (if upper then (\<lambda>n. triu_indices n k) else (\<lambda>n. tril_indices n k))
      in index_pairs mtx (trifunc (length mtx))))"

section \<open>A symbolic instance of the numerics\<close>

text \<open>
  For evaluation on concrete tensors the numerics are instantiated by terms: a value
  is NaN, a number, or the unevaluated application of a numeric operation. NaN
  propagates as in floating point; \<open>nanmean\<close> and the summary skip NaN. The
  threshold keeps a region, when NaNs are tolerated, if some subject has no NaN in
  it, and otherwise only if the region has no NaN at all.
\<close>

datatype sym =
  NaN | Num int
  | Pearson "sym list" "sym list" | Corr "sym list" "sym list"
  | MeanOf "sym list" | Diff sym sym | Summary stat "sym list"

definition sym_numerics :: "sym numerics" where
  "sym_numerics =
     \<lparr> nan = NaN,
       pearson = (\<lambda>x y. if NaN \<in> set x \<or> NaN \<in> set y then NaN else Pearson x y),
       corr = (\<lambda>x y. if NaN \<in> set x \<or> NaN \<in> set y then NaN else Corr x y),
       mean = (\<lambda>xs. if NaN \<in> set xs \<or> xs = [] then NaN else MeanOf xs),
       nanmean = (\<lambda>xs. if filter (\<lambda>x. x \<noteq> NaN) xs = [] then NaN
                        else MeanOf (filter (\<lambda>x. x \<noteq> NaN) xs)),
       fsub = (\<lambda>a b. if a = NaN \<or> b = NaN then NaN else Diff a b),
       region_ok = (\<lambda>tol slab.
          if tol then slab = [] \<or> list_ex (\<lambda>s. list_all (\<lambda>row. row ! s \<noteq> NaN) slab)
                                     [0..<length (hd slab)]
          else list_all (\<lambda>row. NaN \<notin> set row) slab),
       summary = (\<lambda>st xs. if filter (\<lambda>x. x \<noteq> NaN) xs = [] then NaN
                           else Summary st (filter (\<lambda>x. x \<noteq> NaN) xs)) \<rparr>"

definition mk_tensor :: "'a list list list \<Rightarrow> nat \<Rightarrow> nat \<Rightarrow> 'a tensor" where
  "mk_tensor xs v s = \<lparr> nTR = length xs, nvox = v, nsub = s, cells = xs \<rparr>"

text \<open>Tensors and a matrix on which the functions are evaluated.\<close>

definition D2 :: "sym tensor" where
  "D2 = mk_tensor [[[Num 1, Num 2], [Num 3, NaN]], [[Num 5, Num 6], [Num 7, Num 8]]] 2 2"

definition D3 :: "sym tensor" where
  "D3 = mk_tensor [[[Num 1, Num 2, Num 9], [Num 3, NaN, Num 4]],
                   [[Num 5, Num 6, Num 0], [Num 7, Num 8, Num 1]]] 2 3"

definition D3n :: "sym tensor" where
  "D3n = mk_tensor [[[NaN, Num 2, Num 9], [Num 3, NaN, Num 4]],
                    [[Num 5, Num 6, Num 0], [Num 7, Num 8, NaN]]] 2 3"

definition D1v :: "sym tensor" where
  "D1v = mk_tensor [[[Num 1, Num 2]], [[Num 3, Num 4]]] 1 2"


definition M3 :: "nat list list" where
  "M3 = [[1, 2, 3], [4, 5, 6], [7, 8, 9]]"

section \<open>Notions of the specification\<close>

text \<open>
  The pair order of the specification: the index pairs \<open>(i, j)\<close> with \<open>i < j\<close>, \<open>i\<close>
  ascending in the outer position and \<open>j\<close> ascending in the inner position.
\<close>

definition spec_pairs :: "nat \<Rightarrow> (nat \<times> nat) list" where
  "spec_pairs n = concat (map (\<lambda>i. map (\<lambda>j. (i, j)) [Suc i..<n]) [0..<n])"




text \<open>The time length of the input: of the array, or of the first group.\<close>

definition time_length :: "'a seg_data \<Rightarrow> nat" where
  "time_length data =
     (case data of Array d \<Rightarrow> nTR d | GroupList gs \<Rightarrow> (case gs of [] \<Rightarrow> 0 | g # _ \<Rightarrow> nTR g))"

definition matching_input :: "'a seg_data \<Rightarrow> isc_method \<Rightarrow> bool" where
  "matching_input data method =
     (case data of Array d \<Rightarrow> method \<noteq> Wmb | GroupList gs \<Rightarrow> method = Wmb \<and> gs \<noteq> [])"


section \<open>Basic facts\<close>

lemma bindE_Inr [simp]: "bindE (Inr x) f = f x"
  by (simp add: bindE_def)

lemma bindE_Inl [simp]: "bindE (Inl e) f = Inl e"
  by (simp add: bindE_def)

lemma check_timeseries_input_wf:
  "wf_tensor d \<Longrightarrow> check_timeseries_input d = Inr (d, nTR d, nvox d, nsub d)"
  by (simp add: check_timeseries_input_def)

lemma length_scatter_row [simp]: "length (scatter_row nv m ys) = length m"
  by (induction nv m ys rule: scatter_row.induct) simp_all

lemma length_array_correlation [simp]: "length (array_correlation N k x y) = k"
  by (simp add: array_correlation_def)

lemma scatter_ok:
  "list_all (\<lambda>r. length r = length (filter id m)) stack \<Longrightarrow>
   scatter nv m stack = Inr (map (scatter_row nv m) stack)"
  by (simp add: scatter_def)

lemma sum_pairs: "(\<Sum>i<n. n - Suc i) * 2 = n * (n - 1)"
proof (induction n)
  case 0
  then show ?case by simp
next
  case (Suc n)
  have "(\<Sum>i<Suc n. Suc n - Suc i) = (\<Sum>i<n. n - i)" by simp
  also have "\<dots> = (\<Sum>i<n. Suc (n - Suc i))"
    by (rule sum.cong) auto
  also have "\<dots> = (\<Sum>i<n. n - Suc i) + n"
    by (simp add: sum_Suc)
  finally show ?case using Suc by (cases n) (simp_all add: algebra_simps)
qed

lemma length_spec_pairs: "length (spec_pairs n) = n * (n - 1) div 2"
proof -
  have "length (spec_pairs n) = (\<Sum>i<n. n - Suc i)"
    by (simp add: spec_pairs_def length_concat comp_def interv_sum_list_conv_sum_set_nat atLeast0LessThan)
  then show ?thesis using sum_pairs [of n] by simp
qed

lemma filter_above: "filter (\<lambda>j. i < j) [0..<n] = [Suc i..<n]"
proof (induction n)
  case 0
  then show ?case by simp
next
  case (Suc n)
  then show ?case by (cases "i < n") (auto simp: not_less)
qed

lemma triu_indices_1: "triu_indices n 1 = spec_pairs n"
proof -
  have "\<And>i. (\<lambda>j. (1::int) \<le> int j - int i) = (\<lambda>j. i < j)"
    by (auto simp: fun_eq_iff)
  then have "\<And>i. filter (\<lambda>j. (1::int) \<le> int j - int i) [0..<n] = [Suc i..<n]"
    by (simp add: filter_above)
  then show ?thesis by (simp add: triu_indices_def spec_pairs_def)
qed

lemma set_spec_pairs: "set (spec_pairs n) = {(i, j). i < j \<and> j < n}"
  by (force simp: spec_pairs_def)

lemma drop_as_map_nth: "drop k xs = map (\<lambda>j. xs ! j) [k..<length xs]"
proof -
  have "drop k xs = drop k (map (\<lambda>j. xs ! j) [0..<length xs])"
    by (simp add: map_nth)
  also have "\<dots> = map (\<lambda>j. xs ! j) [k..<length xs]"
    by (simp add: drop_map)
  finally show ?thesis .
qed

lemma squareform_spec_pairs:
  assumes sq: "list_all (\<lambda>r. length r = length m) m"
  shows "squareform m = map (\<lambda>(i, j). m ! i ! j) (spec_pairs (length m))"
proof -
  let ?n = "length m"
  have row: "drop (Suc i) (m ! i) = map (\<lambda>j. m ! i ! j) [Suc i..<?n]" if "i < ?n" for i
  proof -
    from sq that have "length (m ! i) = ?n" by (simp add: list_all_length)
    then show ?thesis using drop_as_map_nth [of "Suc i" "m ! i"] by simp
  qed
  have "squareform m = concat (map (\<lambda>i. drop (Suc i) (m ! i)) [0..<?n])"
  proof (cases ?n)
    case 0
    then show ?thesis by (simp add: squareform_def)
  next
    case (Suc k)
    have "length (m ! k) = Suc k" using sq Suc by (simp add: list_all_length)
    then show ?thesis using Suc by (simp add: squareform_def)
  qed
  also have "\<dots> = concat (map (\<lambda>i. map (\<lambda>j. m ! i ! j) [Suc i..<?n]) [0..<?n])"
    using row by (intro arg_cong [where f = concat] map_cong) auto
  also have "\<dots> = map (\<lambda>(i, j). m ! i ! j) (spec_pairs ?n)"
    by (simp add: spec_pairs_def map_concat comp_def)
  finally show ?thesis .
qed

lemma index_pairs_spec_pairs:
  assumes sq: "list_all (\<lambda>r. length r = length m) m"
  shows "index_pairs m (spec_pairs (length m)) = Inr (map (\<lambda>(i, j). m ! i ! j) (spec_pairs (length m)))"
proof -
  have "list_all (\<lambda>(i, j). i < length m \<and> j < length (m ! i)) (spec_pairs (length m))"
    using sq by (auto simp: list_all_iff set_spec_pairs list_all_length)
  then show ?thesis by (simp add: index_pairs_def)
qed

lemma corrcoef_square: "list_all (\<lambda>r. length r = length (corrcoef N x)) (corrcoef N x)"
  by (simp add: corrcoef_def list_all_iff)

lemma length_squareform:
  "list_all (\<lambda>r. length r = length m) m \<Longrightarrow> length (squareform m) = length m * (length m - 1) div 2"
  by (simp add: squareform_spec_pairs length_spec_pairs)


lemma compact_map: "compact m (map g xs) = map g (compact m xs)"
  by (simp add: compact_def zip_map1 filter_map comp_def case_prod_unfold)

lemma compact_as_nth: "compact m xs = map (\<lambda>v. xs ! v) (compact m [0..<length xs])"
proof -
  have "compact m xs = compact m (map (\<lambda>v. xs ! v) [0..<length xs])"
    by (simp add: map_nth)
  then show ?thesis by (simp only: compact_map)
qed

lemma length_compact:
  "length xs = length m \<Longrightarrow> length (compact m xs) = length (filter id m)"
proof (induction xs m rule: list_induct2)
  case Nil
  then show ?case by (simp add: compact_def)
next
  case (Cons x xs b m)
  then show ?case by (simp add: compact_def)
qed

lemma scatter_row_compact:
  "length xs = length m \<Longrightarrow>
   scatter_row nv m (map h (compact m xs)) = map (\<lambda>(x, b). if b then h x else nv) (zip xs m)"
proof (induction xs m rule: list_induct2)
  case Nil
  then show ?case by (simp add: compact_def)
next
  case (Cons x xs b m)
  then show ?case by (cases b) (simp_all add: compact_def)
qed

lemma scatter_row_where:
  "scatter_row nv m (map h (compact m [0..<length m])) =
   map (\<lambda>v. if m ! v then h v else nv) [0..<length m]"
proof -
  have "scatter_row nv m (map h (compact m [0..<length m])) =
        map (\<lambda>(x, b). if b then h x else nv) (zip [0..<length m] m)"
    by (rule scatter_row_compact) simp
  also have "\<dots> = map (\<lambda>v. if m ! v then h v else nv) [0..<length m]"
    by (rule nth_equalityI) simp_all
  finally show ?thesis .
qed

section \<open>The pair order of \<open>tri2vect\<close> and of pairwise ISC\<close>

lemma tri2vect_squareform:
  assumes sq: "list_all (\<lambda>r. length r = length m) m"
  shows "tri2vect argsort m True None None = Inr (squareform m)"
  using sq
  by (simp add: tri2vect_def triu_indices_1 index_pairs_spec_pairs squareform_spec_pairs)

text \<open>
  Claim C8. On a square matrix, \<open>tri2vect\<close> with \<open>upper=True\<close>, no reordering and
  the default diagonal offset returns the entries above the diagonal in the pair
  order of the specification (\<open>i < j\<close>, \<open>i\<close> ascending outside, \<open>j\<close> ascending inside),
  and so does the condensed vector \<open>squareform\<close> builds in pairwise ISC: on the
  correlation matrix of a region the two routines return the same vector.
\<close>

theorem tri2vect_matches_pairwise_order:
  assumes sq: "list_all (\<lambda>r. length r = length mtx) mtx"
  shows "tri2vect argsort mtx True None None =
           Inr (map (\<lambda>(i, j). mtx ! i ! j) (spec_pairs (length mtx))) \<and>
         squareform mtx = map (\<lambda>(i, j). mtx ! i ! j) (spec_pairs (length mtx)) \<and>
         tri2vect argsort (corrcoef N x) True None None = Inr (pairwise_corr N x)"
proof -
  have "tri2vect argsort (corrcoef N x) True None None = Inr (squareform (corrcoef N x))"
    by (rule tri2vect_squareform) (rule corrcoef_square)
  then show ?thesis
    using sq by (simp add: tri2vect_squareform squareform_spec_pairs pairwise_corr_def)
qed

theorem tri2vect_matches_pairwise_order_witness:
  "list_all (\<lambda>r. length r = length M3) M3 \<and>
   tri2vect (\<lambda>ks :: nat list. []) M3 True None None = Inr [2, 3, 6] \<and>
   squareform M3 = [2, 3, 6] \<and>
   tri2vect (\<lambda>ks :: nat list. []) (corrcoef sym_numerics (voxel_data D3 0)) True None None =
     Inr (pairwise_corr sym_numerics (voxel_data D3 0))"
proof -
  have sq: "list_all (\<lambda>r. length r = length M3) M3" by code_simp
  have e: "map (\<lambda>(i, j). M3 ! i ! j) (spec_pairs (length M3)) = [2, 3, 6]" by code_simp
  from tri2vect_matches_pairwise_order [OF sq, of "\<lambda>ks. []" sym_numerics "voxel_data D3 0"] e sq
  show ?thesis by simp
qed

section \<open>Properties of \<open>isc\<close>\<close>

lemma wf_tensor_row:
  "wf_tensor d \<Longrightarrow> row \<in> set (cells d) \<Longrightarrow> length row = nvox d"
  by (simp add: wf_tensor_def list_all_iff)

lemma array_correlation_selected:
  assumes wf: "wf_tensor d" and len: "length m = nvox d"
  shows "array_correlation N (nvox (select_regions d m))
           (subject (select_regions d m) s) (subject (select_regions d m) s') =
         map (\<lambda>v. pearson N (series d v s) (series d v s')) (compact m [0..<nvox d])"
proof -
  let ?idx = "compact m [0..<nvox d]"
  have k: "nvox (select_regions d m) = length ?idx"
    using len by (simp add: select_regions_def length_compact)
  have col: "column (subject (select_regions d m) t) j = series d (?idx ! j) t"
    if "j < length ?idx" for j t
  proof -
    have "map (\<lambda>c. c ! t) (compact m row) ! j = row ! (?idx ! j) ! t"
      if "row \<in> set (cells d)" for row
    proof -
      have "length row = nvox d" using wf that by (rule wf_tensor_row)
      then have "compact m row = map (\<lambda>v. row ! v) ?idx"
        using compact_as_nth [of m row] by simp
      then show ?thesis using \<open>j < length ?idx\<close> by simp
    qed
    then show ?thesis
      by (simp add: column_def subject_def select_regions_def series_def)
  qed
  have "array_correlation N (nvox (select_regions d m))
           (subject (select_regions d m) s) (subject (select_regions d m) s') =
        map (\<lambda>j. pearson N (series d (?idx ! j) s) (series d (?idx ! j) s')) [0..<length ?idx]"
    unfolding array_correlation_def k using col by simp
  also have "\<dots> = map (\<lambda>v. pearson N (series d v s) (series d v s')) ?idx"
    by (rule nth_equalityI) simp_all
  finally show ?thesis .
qed

lemma isc_two_closed_form:
  assumes wf: "wf_tensor d" and two: "nsub d = 2"
  shows "isc N d pw ss tol nj =
           ([two_subjects_notice],
            Inr (Vec (map (\<lambda>v. if region_ok N tol (region_slab d v)
                                then pearson N (series d v 0) (series d v 1) else nan N)
                       [0..<nvox d])))"
proof -
  let ?m = "map (\<lambda>v. region_ok N tol (region_slab d v)) [0..<nvox d]"
  let ?h = "\<lambda>v. pearson N (series d v 0) (series d v 1)"
  have len: "length ?m = nvox d" by simp
  have ac: "array_correlation N (nvox (select_regions d ?m))
              (subject (select_regions d ?m) 0) (subject (select_regions d ?m) (Suc 0)) =
            map ?h (compact ?m [0..<nvox d])"
    using array_correlation_selected [OF wf len, of N 0 1] by simp
  have sc: "scatter (nan N) ?m [map ?h (compact ?m [0..<nvox d])] =
            Inr [scatter_row (nan N) ?m (map ?h (compact ?m [0..<nvox d]))]"
    by (simp add: scatter_def length_compact)
  have sr: "scatter_row (nan N) ?m (map ?h (compact ?m [0..<nvox d])) =
            map (\<lambda>v. if ?m ! v then ?h v else nan N) [0..<nvox d]"
    using scatter_row_where [of "nan N" ?m ?h] by simp
  have "map (\<lambda>v. if ?m ! v then ?h v else nan N) [0..<nvox d] =
        map (\<lambda>v. if region_ok N tol (region_slab d v) then ?h v else nan N) [0..<nvox d]"
    by (rule map_cong) simp_all
  with sr have sr': "scatter_row (nan N) ?m (map ?h (compact ?m [0..<nvox d])) =
        map (\<lambda>v. if region_ok N tol (region_slab d v) then ?h v else nan N) [0..<nvox d]"
    by simp
  show ?thesis
    using wf two ac sc sr'
    by (simp add: isc_def check_timeseries_input_def threshold_nans_def Let_def)
qed

lemma length_loo_corr [simp]: "length (loo_corr N meanf x s) = nvox x"
  by (simp add: loo_corr_def)

lemma loo_stack_ok:
  "n_jobs \<noteq> Some 0 \<Longrightarrow>
   loo_stack N meanf d n n_jobs = Inr (map (\<lambda>s. loo_corr N meanf d s) [0..<n])"
  by (simp add: loo_stack_def Parallel_def)

lemma pairwise_stack_n_jobs: "pairwise_stack N d n_jobs = pairwise_stack N d None"
  by (simp add: pairwise_stack_def Parallel_def pairwise_corr_def)

lemma length_pairwise_corr:
  "length (pairwise_corr N (voxel_data d v)) = nsub d * (nsub d - 1) div 2"
proof -
  have "length (corrcoef N (voxel_data d v)) = nsub d"
    by (simp add: corrcoef_def voxel_data_def)
  then show ?thesis
    using length_squareform [OF corrcoef_square, of N "voxel_data d v"]
    by (simp add: pairwise_corr_def)
qed

lemma pairwise_stack_shape:
  assumes "0 < nvox d" and "nsub d \<noteq> 1"
  shows "\<exists>rows. pairwise_stack N d None = Inr rows \<and>
           length rows = nsub d * (nsub d - 1) div 2 \<and>
           list_all (\<lambda>r. length r = nvox d) rows"
proof -
  let ?cols = "map (\<lambda>v. pairwise_corr N (voxel_data d v)) [0..<nvox d]"
  let ?p = "nsub d * (nsub d - 1) div 2"
  from assms(1) obtain a as where cols: "?cols = a # as"
    by (cases ?cols) auto
  have all: "list_all (\<lambda>b. length b = ?p) ?cols"
    by (simp add: list_all_iff length_pairwise_corr)
  with cols have a: "length a = ?p" by simp
  have "column_stack ?cols = Inr (map (\<lambda>p. map (\<lambda>b. b ! p) ?cols) [0..<?p])"
    using all a unfolding column_stack_def cols by simp
  then show ?thesis
    using assms(2) by (simp add: pairwise_stack_def Parallel_def list_all_iff)
qed


lemma scatter_row_all_False:
  "list_all (\<lambda>b. \<not> b) m \<Longrightarrow> scatter_row nv m [] = replicate (length m) nv"
  by (induction m) auto


text \<open>
  Claim C10. With exactly two subjects \<open>isc(data, pairwise=True)\<close> returns what
  \<open>isc(data, pairwise=False)\<close> returns, the other arguments being the same: the
  two-subject case is tested before the pairwise flag.
\<close>

theorem isc_pairwise_flag_two_subjects:
  "nsub d = 2 \<Longrightarrow> isc N d True ss tol n_jobs = isc N d False ss tol n_jobs"
  by (simp add: isc_def check_timeseries_input_def Let_def split: prod.splits)

theorem isc_pairwise_flag_two_subjects_witness:
  "nsub D2 = 2 \<and>
   isc sym_numerics D2 True (Some Median) True None =
     isc sym_numerics D2 False (Some Median) True None \<and>
   isc sym_numerics D2 True (Some Median) True None =
     ([two_subjects_notice], Inr (Vec [Pearson [Num 1, Num 5] [Num 2, Num 6], NaN]))"
proof -
  have two: "nsub D2 = 2" by code_simp
  have e: "isc sym_numerics D2 False (Some Median) True None =
     ([two_subjects_notice], Inr (Vec [Pearson [Num 1, Num 5] [Num 2, Num 6], NaN]))"
    by code_simp
  from isc_pairwise_flag_two_subjects [OF two, of sym_numerics "Some Median" True None] two e
  show ?thesis by simp
qed

text \<open>
  Claim C9, as amended. For every \<open>n_jobs\<close> other than 0 the result of \<open>isc\<close> is the
  result with \<open>n_jobs=None\<close>: the loop and the \<open>Parallel\<close> dispatch of both modes
  compute the same list in the same order. In pairwise mode and with two subjects
  this holds for every \<open>n_jobs\<close>. (\<open>n_jobs=0\<close> reaches \<open>Parallel\<close> in leave-one-out
  mode, which rejects it.)
\<close>

theorem isc_n_jobs_independent:
  "(n_jobs \<noteq> Some 0 \<longrightarrow> isc N d pw ss tol n_jobs = isc N d pw ss tol None) \<and>
   (pw \<or> nsub d = 2 \<longrightarrow> isc N d pw ss tol n_jobs = isc N d pw ss tol None)"
proof -
  have loo: "loo_stack N meanf x n n_jobs = loo_stack N meanf x n None"
    if "n_jobs \<noteq> Some 0" for meanf x n
    using that by (simp add: loo_stack_def Parallel_def)
  have pws: "pairwise_stack N x n_jobs = pairwise_stack N x None" for x
    by (rule pairwise_stack_n_jobs)
  show ?thesis
    by (auto simp: isc_def Let_def loo pws check_timeseries_input_def
        split: sum.splits prod.splits if_splits)
qed

theorem isc_n_jobs_independent_witness:
  "(Some 4 :: int option) \<noteq> Some 0 \<and>
   isc sym_numerics D3 False (Some Mean) True (Some 4) =
     isc sym_numerics D3 False (Some Mean) True None \<and>
   isc sym_numerics D3 True None True (Some 0) = isc sym_numerics D3 True None True None \<and>
   nsub D2 = 2 \<and>
   isc sym_numerics D2 False None True (Some 0) = isc sym_numerics D2 False None True None"
proof -
  have ne: "(Some 4 :: int option) \<noteq> Some 0" by simp
  have two: "nsub D2 = 2" by code_simp
  from isc_n_jobs_independent [of "Some 4" sym_numerics D3 False "Some Mean" True]
    isc_n_jobs_independent [of "Some 0" sym_numerics D3 True None True]
    isc_n_jobs_independent [of "Some 0" sym_numerics D2 False None True] ne two
  show ?thesis by simp
qed

text \<open>
  With three subjects in leave-one-out mode, \<open>n_jobs=0\<close> ends in the \<open>ValueError\<close> of
  \<open>Parallel\<close>, while \<open>n_jobs=None\<close> returns the array.
\<close>

theorem isc_n_jobs_independent_counterexample:
  "isc sym_numerics D3 False None True (Some 0) = ([], Inl ValueError) \<and>
   isc sym_numerics D3 False None True (Some 0) \<noteq> isc sym_numerics D3 False None True None"
proof -
  have a: "isc sym_numerics D3 False None True (Some 0) = ([], Inl ValueError)"
    by code_simp
  have b: "isc sym_numerics D3 False None True None \<noteq> ([], Inl ValueError)"
    by code_simp
  from a b show ?thesis by simp
qed

text \<open>
  Claim C2. With exactly two subjects \<open>isc\<close> raises nothing, logs the notice and
  returns one value per region: the Pearson correlation of the two subjects'
  timeseries in every region the NaN threshold keeps, NaN in the others. A
  requested summary statistic changes nothing: the result is that of the call with
  \<open>summary_statistic=None\<close>. When the correlation is NaN in every region that is not
  kept, the result is the correlation of the two timeseries in every region.
\<close>

theorem isc_two_subjects:
  assumes wf: "wf_tensor d" and two: "nsub d = 2"
  shows "isc N d pw ss tol n_jobs =
           ([two_subjects_notice],
            Inr (Vec (map (\<lambda>v. if region_ok N tol (region_slab d v)
                                then pearson N (series d v 0) (series d v 1) else nan N)
                       [0..<nvox d]))) \<and>
         isc N d pw ss tol n_jobs = isc N d pw None tol n_jobs \<and>
         ((\<forall>v<nvox d. \<not> region_ok N tol (region_slab d v) \<longrightarrow>
               pearson N (series d v 0) (series d v 1) = nan N) \<longrightarrow>
          snd (isc N d pw ss tol n_jobs) =
            Inr (Vec (map (\<lambda>v. pearson N (series d v 0) (series d v 1)) [0..<nvox d])))"
proof (intro conjI impI)
  show cf: "isc N d pw ss tol n_jobs =
           ([two_subjects_notice],
            Inr (Vec (map (\<lambda>v. if region_ok N tol (region_slab d v)
                                then pearson N (series d v 0) (series d v 1) else nan N)
                       [0..<nvox d])))"
    by (rule isc_two_closed_form [OF wf two])
  show "isc N d pw ss tol n_jobs = isc N d pw None tol n_jobs"
    by (simp add: isc_two_closed_form [OF wf two])
  assume ex: "\<forall>v<nvox d. \<not> region_ok N tol (region_slab d v) \<longrightarrow>
               pearson N (series d v 0) (series d v 1) = nan N"
  have "map (\<lambda>v. if region_ok N tol (region_slab d v)
                  then pearson N (series d v 0) (series d v 1) else nan N) [0..<nvox d] =
        map (\<lambda>v. pearson N (series d v 0) (series d v 1)) [0..<nvox d]"
    using ex by (intro map_cong) auto
  with cf show "snd (isc N d pw ss tol n_jobs) =
            Inr (Vec (map (\<lambda>v. pearson N (series d v 0) (series d v 1)) [0..<nvox d]))"
    by simp
qed

theorem isc_two_subjects_witness:
  "wf_tensor D2 \<and> nsub D2 = 2 \<and>
   region_ok sym_numerics False (region_slab D2 0) \<and>
   \<not> region_ok sym_numerics False (region_slab D2 (Suc 0)) \<and>
   pearson sym_numerics (series D2 (Suc 0) 0) (series D2 (Suc 0) 1) = nan sym_numerics \<and>
   isc sym_numerics D2 False (Some Mean) False None =
     ([two_subjects_notice], Inr (Vec [Pearson [Num 1, Num 5] [Num 2, Num 6], NaN])) \<and>
   isc sym_numerics D2 False (Some Mean) False None = isc sym_numerics D2 False None False None \<and>
   snd (isc sym_numerics D2 False (Some Mean) False None) =
     Inr (Vec (map (\<lambda>v. pearson sym_numerics (series D2 v 0) (series D2 v 1)) [0..<nvox D2]))"
proof -
  have wf: "wf_tensor D2" by code_simp
  have two: "nsub D2 = 2" by code_simp
  have nv: "nvox D2 = Suc (Suc 0)" by code_simp
  have r0: "region_ok sym_numerics False (region_slab D2 0)" by code_simp
  have r1: "\<not> region_ok sym_numerics False (region_slab D2 (Suc 0))" by code_simp
  have p1: "pearson sym_numerics (series D2 (Suc 0) 0) (series D2 (Suc 0) 1) = nan sym_numerics"
    by code_simp
  have e: "isc sym_numerics D2 False (Some Mean) False None =
     ([two_subjects_notice], Inr (Vec [Pearson [Num 1, Num 5] [Num 2, Num 6], NaN]))"
    by code_simp
  have ex: "\<forall>v<nvox D2. \<not> region_ok sym_numerics False (region_slab D2 v) \<longrightarrow>
      pearson sym_numerics (series D2 v 0) (series D2 v 1) = nan sym_numerics"
    using r0 p1 by (auto simp: nv less_Suc_eq)
  from isc_two_subjects [OF wf two, of sym_numerics False "Some Mean" False None] ex
  have "isc sym_numerics D2 False (Some Mean) False None = isc sym_numerics D2 False None False None"
    and "snd (isc sym_numerics D2 False (Some Mean) False None) =
     Inr (Vec (map (\<lambda>v. pearson sym_numerics (series D2 v 0) (series D2 v 1)) [0..<nvox D2]))"
    by blast+
  with wf two r0 r1 p1 e show ?thesis by blast
qed

text \<open>
  Claim C1, as amended. For a well-formed tensor with three or more subjects and no
  summary statistic, \<open>isc\<close> returns in leave-one-out mode a matrix with one row per
  subject and one column per region, and in pairwise mode, when the NaN threshold
  keeps at least one region, a matrix with \<open>n\<cdot>(n-1)/2\<close> rows and one column per
  region. With exactly two subjects the row dimension is dropped: \<open>isc\<close> returns a
  vector with one entry per region, in both modes.
\<close>

theorem isc_output_shape:
  assumes wf: "wf_tensor d"
  shows "(3 \<le> nsub d \<and> n_jobs \<noteq> Some 0 \<longrightarrow>
            (\<exists>rows. snd (isc N d False None tol n_jobs) = Inr (Mat rows) \<and>
               length rows = nsub d \<and> list_all (\<lambda>r. length r = nvox d) rows)) \<and>
         (3 \<le> nsub d \<and> (\<exists>v<nvox d. region_ok N tol (region_slab d v)) \<longrightarrow>
            (\<exists>rows. snd (isc N d True None tol n_jobs) = Inr (Mat rows) \<and>
               length rows = nsub d * (nsub d - 1) div 2 \<and>
               list_all (\<lambda>r. length r = nvox d) rows)) \<and>
         (nsub d = 2 \<longrightarrow>
            (\<exists>row. snd (isc N d pw ss tol n_jobs) = Inr (Vec row) \<and> length row = nvox d))"
proof (intro conjI impI)
  let ?m = "map (\<lambda>v. region_ok N tol (region_slab d v)) [0..<nvox d]"
  let ?d = "select_regions d ?m"
  have nv: "nvox ?d = length (filter id ?m)" by (simp add: select_regions_def)
  have ns: "nsub ?d = nsub d" by (simp add: select_regions_def)
  {
    assume h: "3 \<le> nsub d \<and> n_jobs \<noteq> Some 0"
    let ?meanf = "if tol then nanmean N else mean N"
    let ?stack = "map (\<lambda>s. loo_corr N ?meanf ?d s) [0..<nsub d]"
    have st: "loo_stack N ?meanf ?d (nsub d) n_jobs = Inr ?stack"
      using h by (simp add: loo_stack_ok)
    have sc: "scatter (nan N) ?m ?stack = Inr (map (scatter_row (nan N) ?m) ?stack)"
      by (rule scatter_ok) (simp add: list_all_iff nv)
    have "snd (isc N d False None tol n_jobs) = Inr (Mat (map (scatter_row (nan N) ?m) ?stack))"
      using wf h st sc
      by (simp add: isc_def check_timeseries_input_def threshold_nans_def Let_def)
    then show "\<exists>rows. snd (isc N d False None tol n_jobs) = Inr (Mat rows) \<and>
               length rows = nsub d \<and> list_all (\<lambda>r. length r = nvox d) rows"
      by (simp add: list_all_iff)
  }
  {
    assume h: "3 \<le> nsub d \<and> (\<exists>v<nvox d. region_ok N tol (region_slab d v))"
    then obtain v where v: "v < nvox d" "region_ok N tol (region_slab d v)"
      by blast
    then have "True \<in> set ?m" by (auto simp: image_iff intro!: bexI [of _ v])
    then have "filter id ?m \<noteq> []"
      unfolding filter_empty_conv by (metis id_apply)
    then have pos: "0 < nvox ?d" by (simp only: nv length_greater_0_conv simp_thms)
    from h have "nsub ?d \<noteq> 1" by (simp add: ns)
    from pairwise_stack_shape [OF pos this, of N] obtain rows where
      rows: "pairwise_stack N ?d None = Inr rows"
        "length rows = nsub d * (nsub d - 1) div 2"
        "list_all (\<lambda>r. length r = nvox ?d) rows"
      by (auto simp: ns)
    have sc: "scatter (nan N) ?m rows = Inr (map (scatter_row (nan N) ?m) rows)"
      using rows(3) by (intro scatter_ok) (simp add: nv)
    have "3 \<le> nsub d * (nsub d - 1) div 2"
    proof -
      from h have "3 * 2 \<le> nsub d * (nsub d - 1)"
        by (intro mult_mono) auto
      then show ?thesis by simp
    qed
    then have ne1: "length rows \<noteq> 1" using rows(2) by simp
    have "snd (isc N d True None tol n_jobs) = Inr (Mat (map (scatter_row (nan N) ?m) rows))"
      using wf h rows(1) sc ne1
      by (simp add: isc_def check_timeseries_input_def threshold_nans_def Let_def
          pairwise_stack_n_jobs [of N _ n_jobs])
    then show "\<exists>rows. snd (isc N d True None tol n_jobs) = Inr (Mat rows) \<and>
               length rows = nsub d * (nsub d - 1) div 2 \<and>
               list_all (\<lambda>r. length r = nvox d) rows"
      using rows(2) by (simp add: list_all_iff)
  }
  {
    assume "nsub d = 2"
    then show "\<exists>row. snd (isc N d pw ss tol n_jobs) = Inr (Vec row) \<and> length row = nvox d"
      by (simp add: isc_two_closed_form [OF wf])
  }
qed
theorem isc_output_shape_witness:
  "wf_tensor D3 \<and> 3 \<le> nsub D3 \<and> region_ok sym_numerics True (region_slab D3 0) \<and>
   (\<exists>rows. snd (isc sym_numerics D3 False None True None) = Inr (Mat rows) \<and>
      length rows = nsub D3 \<and> list_all (\<lambda>r. length r = nvox D3) rows) \<and>
   (\<exists>rows. snd (isc sym_numerics D3 True None True None) = Inr (Mat rows) \<and>
      length rows = nsub D3 * (nsub D3 - 1) div 2 \<and> list_all (\<lambda>r. length r = nvox D3) rows) \<and>
   wf_tensor D2 \<and> nsub D2 = 2 \<and>
   (\<exists>row. snd (isc sym_numerics D2 True None True None) = Inr (Vec row) \<and> length row = nvox D2)"
proof -
  have wf3: "wf_tensor D3" by code_simp
  have wf2: "wf_tensor D2" by code_simp
  have three: "3 \<le> nsub D3" by code_simp
  have two: "nsub D2 = 2" by code_simp
  have pos: "0 < nvox D3" by code_simp
  have r0: "region_ok sym_numerics True (region_slab D3 0)" by code_simp
  have nj: "(None :: int option) \<noteq> Some 0" by simp
  from pos r0 have ex: "\<exists>v<nvox D3. region_ok sym_numerics True (region_slab D3 v)" by blast
  from isc_output_shape [OF wf3, of None sym_numerics True] three nj ex
  have a: "\<exists>rows. snd (isc sym_numerics D3 False None True None) = Inr (Mat rows) \<and>
      length rows = nsub D3 \<and> list_all (\<lambda>r. length r = nvox D3) rows"
    and b: "\<exists>rows. snd (isc sym_numerics D3 True None True None) = Inr (Mat rows) \<and>
      length rows = nsub D3 * (nsub D3 - 1) div 2 \<and> list_all (\<lambda>r. length r = nvox D3) rows"
    by blast+
  from isc_output_shape [OF wf2, of None sym_numerics True True None] two
  have c: "\<exists>row. snd (isc sym_numerics D2 True None True None) = Inr (Vec row) \<and>
      length row = nvox D2"
    by blast
  from wf3 three r0 a b wf2 two c show ?thesis by blast
qed

text \<open>
  With two subjects the result is a vector, not a matrix of shape
  \<open>(n_subjects, n_regions)\<close> or \<open>(1, n_regions)\<close>.
\<close>

theorem isc_output_shape_counterexample:
  "snd (isc sym_numerics D2 False None True None) =
     Inr (Vec [Pearson [Num 1, Num 5] [Num 2, Num 6], NaN]) \<and>
   \<not> (\<exists>rows. snd (isc sym_numerics D2 False None True None) = Inr (Mat rows) \<and>
         length rows = nsub D2 \<and> list_all (\<lambda>r. length r = nvox D2) rows) \<and>
   \<not> (\<exists>rows. snd (isc sym_numerics D2 True None True None) = Inr (Mat rows) \<and>
         length rows = nsub D2 * (nsub D2 - 1) div 2 \<and>
         list_all (\<lambda>r. length r = nvox D2) rows)"
proof -
  have a: "snd (isc sym_numerics D2 False None True None) =
     Inr (Vec [Pearson [Num 1, Num 5] [Num 2, Num 6], NaN])"
    by code_simp
  have b: "snd (isc sym_numerics D2 True None True None) =
     Inr (Vec [Pearson [Num 1, Num 5] [Num 2, Num 6], NaN])"
    by code_simp
  show ?thesis by (simp add: a b)
qed

text \<open>
  Claim C4. When the NaN threshold keeps no region of a well-formed tensor, \<open>isc\<close>
  returns the all-NaN array of full region width in leave-one-out mode and with two
  subjects, but in pairwise mode with three or more subjects it raises: the list of
  per-region vectors is empty and \<open>np.column_stack\<close> rejects it.
\<close>

theorem isc_all_regions_excluded:
  assumes wf: "wf_tensor d"
    and none: "\<forall>v<nvox d. \<not> region_ok N tol (region_slab d v)"
  shows "(3 \<le> nsub d \<longrightarrow> isc N d True ss tol n_jobs = ([], Inl ValueError)) \<and>
         (3 \<le> nsub d \<and> n_jobs \<noteq> Some 0 \<longrightarrow>
            snd (isc N d False None tol n_jobs) =
              Inr (Mat (replicate (nsub d) (replicate (nvox d) (nan N))))) \<and>
         (nsub d = 2 \<longrightarrow>
            snd (isc N d pw ss tol n_jobs) = Inr (Vec (replicate (nvox d) (nan N))))"
proof -
  define m where "m = map (\<lambda>v. region_ok N tol (region_slab d v)) [0..<nvox d]"
  define x where "x = select_regions d m"
  have allF: "list_all (\<lambda>b. \<not> b) m"
    using none by (simp add: m_def list_all_iff)
  then have fm: "filter id m = []"
    by (simp add: filter_empty_conv list_all_iff)
  have thr: "threshold_nans N d tol = (x, m)"
    by (simp add: threshold_nans_def Let_def x_def m_def)
  have nv: "nvox x = 0" and ns: "nsub x = nsub d"
    by (simp_all add: x_def select_regions_def fm)
  have lm: "length m = nvox d" by (simp add: m_def)
  have row: "scatter_row (nan N) m [] = replicate (nvox d) (nan N)"
    using scatter_row_all_False [OF allF, of "nan N"] lm by simp
  have pws: "pairwise_stack N x n_jobs = Inl ValueError"
    by (simp add: pairwise_stack_def Parallel_def nv column_stack_def)
  have a: "isc N d True ss tol n_jobs = ([], Inl ValueError)" if "3 \<le> nsub d"
    using that wf pws
    by (simp add: isc_def check_timeseries_input_def thr Let_def)
  have b: "snd (isc N d False None tol n_jobs) =
              Inr (Mat (replicate (nsub d) (replicate (nvox d) (nan N))))"
    if "3 \<le> nsub d \<and> n_jobs \<noteq> Some 0"
  proof -
    define meanf where "meanf = (if tol then nanmean N else mean N)"
    have lc: "loo_corr N meanf x s = []" for s
      by (simp add: loo_corr_def nv array_correlation_def)
    have st: "loo_stack N meanf x (nsub d) n_jobs = Inr (replicate (nsub d) [])"
      using that by (simp add: loo_stack_ok lc map_replicate_const)
    have sc: "scatter (nan N) m (replicate (nsub d) []) =
              Inr (replicate (nsub d) (replicate (nvox d) (nan N)))"
      by (simp add: scatter_def fm list_all_iff row)
    show ?thesis
      unfolding isc_def meanf_def [symmetric]
      using that wf by (simp add: check_timeseries_input_def thr st sc Let_def)
  qed
  have c: "snd (isc N d pw ss tol n_jobs) = Inr (Vec (replicate (nvox d) (nan N)))"
    if "nsub d = 2"
  proof -
    have "map (\<lambda>v. if region_ok N tol (region_slab d v)
                    then pearson N (series d v 0) (series d v 1) else nan N) [0..<nvox d] =
          map (\<lambda>v. nan N) [0..<nvox d]"
      using none by (intro map_cong) auto
    then show ?thesis
      by (simp add: isc_two_closed_form [OF wf that] map_replicate_const)
  qed
  show ?thesis using a b c by blast
qed

theorem isc_all_regions_excluded_witness:
  "wf_tensor D3n \<and> 3 \<le> nsub D3n \<and>
   \<not> region_ok sym_numerics False (region_slab D3n 0) \<and>
   \<not> region_ok sym_numerics False (region_slab D3n (Suc 0)) \<and>
   isc sym_numerics D3n True None False None = ([], Inl ValueError) \<and>
   snd (isc sym_numerics D3n False None False None) =
     Inr (Mat (replicate (nsub D3n) (replicate (nvox D3n) (nan sym_numerics))))"
proof -
  have wf: "wf_tensor D3n" by code_simp
  have nv: "nvox D3n = Suc (Suc 0)" by code_simp
  have r0: "\<not> region_ok sym_numerics False (region_slab D3n 0)" by code_simp
  have r1: "\<not> region_ok sym_numerics False (region_slab D3n (Suc 0))" by code_simp
  have none: "\<forall>v<nvox D3n. \<not> region_ok sym_numerics False (region_slab D3n v)"
    using r0 r1 by (simp add: nv less_Suc_eq)
  have three: "3 \<le> nsub D3n" by code_simp
  have nj: "(None :: int option) \<noteq> Some 0" by simp
  from isc_all_regions_excluded [OF wf none, of None None] three nj
  show ?thesis using wf r0 r1 by blast
qed

section \<open>Properties of \<open>wmb_isc\<close>\<close>

lemma length_one2avg_corr [simp]: "length (one2avg_corr N meanf x y) = nvox y"
  by (simp add: one2avg_corr_def)

lemma group_iscs_ok:
  "n_jobs \<noteq> Some 0 \<Longrightarrow>
   group_iscs N meanf n_jobs own other =
     Inr (map (\<lambda>s. loo_corr N meanf own s) [0..<nsub own],
          map (\<lambda>s. one2avg_corr N meanf (subject own s) other) [0..<nsub own])"
  by (simp add: group_iscs_def Parallel_def Let_def)

lemma wmb_isc_valid:
  assumes wf1: "wf_tensor d1" and wf2: "wf_tensor d2"
    and tr: "nTR d1 = nTR d2" and vx: "nvox d1 = nvox d2" and nj: "n_jobs \<noteq> Some 0"
  shows "\<exists>w b. (\<forall>sub ss. wmb_isc N d1 d2 sub ss tol n_jobs =
                    (if ss \<noteq> None then Inl UnboundLocalError
                     else if sub then Inr (Mat (map2 (map2 (fsub N)) w b))
                     else Inr (Cube [w, b]))) \<and>
               length w = nsub d1 + nsub d2 \<and> length b = nsub d1 + nsub d2 \<and>
               list_all (\<lambda>r. length r = nvox d1) w \<and> list_all (\<lambda>r. length r = nvox d1) b"
proof -
  define meanf where "meanf = (if tol then nanmean N else mean N)"
  define d12 where "d12 = \<lparr> nTR = nTR d1, nvox = nvox d1, nsub = nsub d1 + nsub d2,
                 cells = map2 (map2 (@)) (cells d1) (cells d2) \<rparr>"
  define m where "m = map (\<lambda>v. region_ok N tol (region_slab d12 v)) [0..<nvox d12]"
  define thr where "thr = select_regions d12 m"
  define a where "a = subjects_upto (nsub d1) thr"
  define b where "b = subjects_from (nsub d1) thr"
  define w1 where "w1 = map (\<lambda>s. loo_corr N meanf a s) [0..<nsub a]"
  define b1 where "b1 = map (\<lambda>s. one2avg_corr N meanf (subject a s) b) [0..<nsub a]"
  define w2 where "w2 = map (\<lambda>s. loo_corr N meanf b s) [0..<nsub b]"
  define b2 where "b2 = map (\<lambda>s. one2avg_corr N meanf (subject b s) a) [0..<nsub b]"
  define w where "w = map (scatter_row (nan N) m) (w1 @ w2)"
  define bt where "bt = map (scatter_row (nan N) m) (b1 @ b2)"
  have app: "append_subjects d1 d2 = Inr d12"
    using tr vx by (simp add: append_subjects_def d12_def)
  have thr: "threshold_nans N d12 tol = (thr, m)"
    by (simp add: threshold_nans_def Let_def thr_def m_def)
  have lm: "length m = nvox d1" by (simp add: m_def d12_def)
  have na: "nsub a = nsub d1" and nb: "nsub b = nsub d2"
    and va: "nvox a = length (filter id m)" and vb: "nvox b = length (filter id m)"
    by (simp_all add: a_def b_def thr_def d12_def subjects_upto_def subjects_from_def
        select_regions_def)
  have g1: "group_iscs N meanf n_jobs a b = Inr (w1, b1)"
    unfolding w1_def b1_def using nj by (rule group_iscs_ok)
  have g2: "group_iscs N meanf n_jobs b a = Inr (w2, b2)"
    unfolding w2_def b2_def using nj by (rule group_iscs_ok)
  have sw: "scatter (nan N) m (w1 @ w2) = Inr w"
    unfolding w_def by (rule scatter_ok) (auto simp: list_all_iff w1_def w2_def va vb)
  have sb: "scatter (nan N) m (b1 @ b2) = Inr bt"
    unfolding bt_def by (rule scatter_ok) (auto simp: list_all_iff b1_def b2_def va vb)
  have main: "wmb_isc N d1 d2 sub ss tol n_jobs =
                (if ss \<noteq> None then Inl UnboundLocalError
                 else if sub then Inr (Mat (map2 (map2 (fsub N)) w bt))
                 else Inr (Cube [w, bt]))" for sub ss
    unfolding wmb_isc_def meanf_def [symmetric]
    by (simp add: check_timeseries_input_wf [OF wf1] check_timeseries_input_wf [OF wf2]
        app thr a_def [symmetric] b_def [symmetric] g1 g2 sw sb)
  have "length w = nsub d1 + nsub d2" "length bt = nsub d1 + nsub d2"
    by (simp_all add: w_def bt_def w1_def w2_def b1_def b2_def na nb)
  moreover have "list_all (\<lambda>r. length r = nvox d1) w" "list_all (\<lambda>r. length r = nvox d1) bt"
    by (auto simp: list_all_iff w_def bt_def lm)
  ultimately show ?thesis using main by blast
qed


text \<open>
  Claim C3. For two well-formed groups of the same time and region extents,
  \<open>wmb_isc\<close> with a summary statistic does not return the reduced
  within-minus-between array: it raises \<open>UnboundLocalError\<close> at line 246, whether
  \<open>subtract_wmb\<close> is set or not. (Without a summary statistic it returns the
  difference, or the stacked pair: see \<open>wmb_isc_valid\<close>.)
\<close>

theorem wmb_isc_summary_statistic_raises:
  assumes "wf_tensor d1" "wf_tensor d2" "nTR d1 = nTR d2" "nvox d1 = nvox d2"
    "n_jobs \<noteq> Some 0"
  shows "wmb_isc N d1 d2 subtract_wmb (Some st) tol n_jobs = Inl UnboundLocalError"
  using wmb_isc_valid [OF assms, of N tol] by auto

theorem wmb_isc_summary_statistic_raises_witness:
  "wf_tensor D2 \<and> wf_tensor D3 \<and> nTR D2 = nTR D3 \<and> nvox D2 = nvox D3 \<and>
   wmb_isc sym_numerics D2 D3 True (Some Mean) True None = Inl UnboundLocalError"
proof -
  have wf2: "wf_tensor D2" and wf3: "wf_tensor D3" by code_simp+
  have tr: "nTR D2 = nTR D3" and vx: "nvox D2 = nvox D3" by code_simp+
  have nj: "(None :: int option) \<noteq> Some 0" by simp
  from wmb_isc_summary_statistic_raises [OF wf2 wf3 tr vx nj, of sym_numerics True Mean True]
  show ?thesis using wf2 wf3 tr vx by blast
qed

text \<open>
  Claim C5. With no summary statistic and the other arguments the same,
  \<open>wmb_isc(A, B, subtract_wmb=True)\<close> is the elementwise difference of the within
  array and the between array that \<open>wmb_isc(A, B, subtract_wmb=False)\<close> returns, and
  it raises what that call raises. For well-formed groups of the same time and
  region extents the call returns the pair, both arrays with one row per subject of
  the two groups and one column per region.
\<close>

theorem wmb_isc_subtract:
  "(\<forall>w b. wmb_isc N d1 d2 False None tol n_jobs = Inr (Cube [w, b]) \<longrightarrow>
      wmb_isc N d1 d2 True None tol n_jobs = Inr (Mat (map2 (map2 (fsub N)) w b))) \<and>
   (\<forall>e. wmb_isc N d1 d2 False None tol n_jobs = Inl e \<longrightarrow>
      wmb_isc N d1 d2 True None tol n_jobs = Inl e) \<and>
   (wf_tensor d1 \<and> wf_tensor d2 \<and> nTR d1 = nTR d2 \<and> nvox d1 = nvox d2 \<and> n_jobs \<noteq> Some 0 \<longrightarrow>
      (\<exists>w b. wmb_isc N d1 d2 False None tol n_jobs = Inr (Cube [w, b]) \<and>
         length w = nsub d1 + nsub d2 \<and> length b = nsub d1 + nsub d2 \<and>
         list_all (\<lambda>r. length r = nvox d1) w \<and> list_all (\<lambda>r. length r = nvox d1) b))"
proof (intro conjI allI impI)
  fix w b
  assume "wmb_isc N d1 d2 False None tol n_jobs = Inr (Cube [w, b])"
  then show "wmb_isc N d1 d2 True None tol n_jobs = Inr (Mat (map2 (map2 (fsub N)) w b))"
    by (auto simp: wmb_isc_def Let_def bindE_def split: sum.splits prod.splits if_splits)
next
  fix e
  assume "wmb_isc N d1 d2 False None tol n_jobs = Inl e"
  then show "wmb_isc N d1 d2 True None tol n_jobs = Inl e"
    by (auto simp: wmb_isc_def Let_def bindE_def split: sum.splits prod.splits if_splits)
next
  assume "wf_tensor d1 \<and> wf_tensor d2 \<and> nTR d1 = nTR d2 \<and> nvox d1 = nvox d2 \<and> n_jobs \<noteq> Some 0"
  then have "wf_tensor d1" "wf_tensor d2" "nTR d1 = nTR d2" "nvox d1 = nvox d2" "n_jobs \<noteq> Some 0"
    by simp_all
  from wmb_isc_valid [OF this, of N tol]
  show "\<exists>w b. wmb_isc N d1 d2 False None tol n_jobs = Inr (Cube [w, b]) \<and>
         length w = nsub d1 + nsub d2 \<and> length b = nsub d1 + nsub d2 \<and>
         list_all (\<lambda>r. length r = nvox d1) w \<and> list_all (\<lambda>r. length r = nvox d1) b"
    by auto
qed
theorem wmb_isc_subtract_witness:
  "wf_tensor D2 \<and> wf_tensor D3 \<and> nTR D2 = nTR D3 \<and> nvox D2 = nvox D3 \<and>
   (\<exists>w b. wmb_isc sym_numerics D2 D3 False None True None = Inr (Cube [w, b]) \<and>
      wmb_isc sym_numerics D2 D3 True None True None =
        Inr (Mat (map2 (map2 (fsub sym_numerics)) w b)) \<and>
      length w = nsub D2 + nsub D3 \<and> length b = nsub D2 + nsub D3) \<and>
   wmb_isc sym_numerics D2 D1v False None True None = Inl ValueError \<and>
   wmb_isc sym_numerics D2 D1v True None True None = Inl ValueError"
proof -
  have wf2: "wf_tensor D2" and wf3: "wf_tensor D3" by code_simp+
  have tr: "nTR D2 = nTR D3" and vx: "nvox D2 = nvox D3" by code_simp+
  have nj: "(None :: int option) \<noteq> Some 0" by simp
  have e: "wmb_isc sym_numerics D2 D1v False None True None = Inl ValueError" by code_simp
  note a = wmb_isc_subtract [of sym_numerics D2 D3 True None]
  from a wf2 wf3 tr vx nj obtain w b where
    wb: "wmb_isc sym_numerics D2 D3 False None True None = Inr (Cube [w, b])"
      "length w = nsub D2 + nsub D3" "length b = nsub D2 + nsub D3"
    by blast
  from a wb(1) have s: "wmb_isc sym_numerics D2 D3 True None True None =
        Inr (Mat (map2 (map2 (fsub sym_numerics)) w b))"
    by blast
  from wmb_isc_subtract [of sym_numerics D2 D1v True None] e
  have e': "wmb_isc sym_numerics D2 D1v True None True None = Inl ValueError" by blast
  from wf2 wf3 tr vx wb s e e' show ?thesis by blast
qed

section \<open>Properties of \<open>isc_by_segment\<close>\<close>

declare seg_loop.simps [simp del]














text \<open>
  Claim C7. When \<open>seg_trs\<close> does not divide the time length of the input (or is
  zero), \<open>isc_by_segment\<close> returns no result: an exception reaches the caller. For
  an input that fits the method it is the \<open>TypeError\<close> of the \<open>raise\<close> at line 282.
\<close>

theorem isc_by_segment_not_divisible:
  assumes "seg_trs = 0 \<or> int (time_length data) mod seg_trs \<noteq> 0"
  shows "(\<exists>e. isc_by_segment N data seg_trs method ss tol sub n_jobs = ([], Inl e)) \<and>
         (matching_input data method \<longrightarrow>
            isc_by_segment N data seg_trs method ss tol sub n_jobs = ([], Inl TypeError))"
  using assms
  by (auto simp: isc_by_segment_def checked_n_TRs_def time_length_def matching_input_def Let_def
      split: seg_data.splits list.splits sum.splits if_splits)
theorem isc_by_segment_not_divisible_witness:
  "int (time_length (Array D3)) mod 3 \<noteq> 0 \<and> matching_input (Array D3) Pairwise \<and>
   isc_by_segment sym_numerics (Array D3) 3 Pairwise None False False None = ([], Inl TypeError) \<and>
   matching_input (GroupList [D2, D3]) Wmb \<and>
   isc_by_segment sym_numerics (GroupList [D2, D3]) 0 Wmb None False False None =
     ([], Inl TypeError)"
proof -
  have nd: "int (time_length (Array D3)) mod 3 \<noteq> 0" by code_simp
  have mi: "matching_input (Array D3) Pairwise" by code_simp
  have mi': "matching_input (GroupList [D2, D3]) Wmb" by code_simp
  from isc_by_segment_not_divisible [of 3 "Array D3" sym_numerics Pairwise None False False None]
    isc_by_segment_not_divisible [of 0 "GroupList [D2, D3]" sym_numerics Wmb None False False None]
    nd mi mi'
  show ?thesis by blast
qed


end
